theory Spec2Isabelle
  imports Main
begin

section \<open>The fixture file as text\<close>

text \<open>
  The repository holds one file, \<^verbatim>\<open>test-files/test-python.py\<close>: 41 lines of Python, the
  last one without a final newline. The file is data for a pattern tagger that is not part
  of the repository, so the embedding is the text itself, line by line, and a small set of
  executable readers over it (blank, comment, import, annotation, group, token).
  Line numbers are 1-based, as an editor shows them.
\<close>

definition source_lines :: "string list" where
  \<open>source_lines =
   [''import requests'',
    ''import json'',
    '''',
    ''# Network calls - should be tagged as "Network Call"'',
    ''response = requests.get('https://api.example.com')'',
    ''fetch_data = http.get('/api/users')'',
    '''',
    ''# Debug statements - should be tagged as "Debug Statement"'',
    ''print("Debug message")'',
    ''console.log("Another debug")'',
    ''debugger()'',
    '''',
    ''# TODOs - should be tagged as "Unfinished Block"'',
    ''# TODO: Add error handling'',
    ''# FIXME: This function is broken'',
    ''# HACK: Temporary fix for the bug'',
    ''# NOTE: Remember to update this'',
    '''',
    ''# Database operations - should be tagged as "Database Operation"'',
    ''user = User.objects.get(id=1)'',
    ''query = "SELECT * FROM users WHERE active = 1"'',
    ''User.create(name="John", email="john@example.com")'',
    ''users.save()'',
    '''',
    ''# Error handling - should be tagged as "Error Handling"'',
    ''try:'',
    ''    risky_operation()'',
    ''except Exception as e:'',
    ''    print(f"Error: {e}")'',
    ''    raise ValueError("Custom error")'',
    '''',
    ''# Authentication - should be tagged as "Authentication"'',
    ''token = generate_jwt_token(user_id)'',
    ''if user.is_authenticated():'',
    ''    login_user(user)'',
    ''password_hash = hash_password(password)'',
    '''',
    ''# Configuration - should be tagged as "Configuration"'',
    ''api_key = os.environ.get('API_KEY')'',
    ''config = load_config_file()'',
    ''settings = get_app_settings()'']\<close>

text \<open>The repository: every source file with its path and its lines.\<close>

definition repository :: "(string \<times> string list) list" where
  "repository = [(''test-files/test-python.py'', source_lines)]"

subsection \<open>Characters and lines\<close>

definition dq :: char where
  "dq = CHR 0x22"

definition is_space :: "char \<Rightarrow> bool" where
  "is_space c = (c = CHR '' '' \<or> c = CHR 0x09)"

definition is_word_char :: "char \<Rightarrow> bool" where
  "is_word_char c =
     (let n = (of_char c :: nat) in
        (48 \<le> n \<and> n \<le> 57) \<or> (65 \<le> n \<and> n \<le> 90) \<or> (97 \<le> n \<and> n \<le> 122) \<or> n = 95)"

definition lstrip :: "string \<Rightarrow> string" where
  "lstrip s = dropWhile is_space s"

definition is_blank :: "string \<Rightarrow> bool" where
  "is_blank l = (lstrip l = [])"

definition is_comment :: "string \<Rightarrow> bool" where
  "is_comment l = (take 1 (lstrip l) = ''#'')"

text \<open>The keyword a statement line opens with: the first identifier after the indentation.\<close>

definition first_word :: "string \<Rightarrow> string" where
  "first_word l = takeWhile is_word_char (lstrip l)"

definition is_import :: "string \<Rightarrow> bool" where
  "is_import l = (first_word l = ''import'' \<or> first_word l = ''from'')"

definition is_code :: "string \<Rightarrow> bool" where
  "is_code l = (\<not> is_blank l \<and> \<not> is_comment l)"

definition numbered :: "string list \<Rightarrow> (nat \<times> string) list" where
  "numbered ls = zip [1 ..< Suc (length ls)] ls"

definition lines_where :: "(string \<Rightarrow> bool) \<Rightarrow> string list \<Rightarrow> nat list" where
  "lines_where P ls = map fst (filter (\<lambda>nl. P (snd nl)) (numbered ls))"

subsection \<open>Substrings and tokens\<close>

fun starts_with :: "string \<Rightarrow> string \<Rightarrow> bool" where
  "starts_with [] s = True"
| "starts_with (a # p) [] = False"
| "starts_with (a # p) (b # s) = (if a = b then starts_with p s else False)"

text \<open>Cut a string at the first occurrence of a pattern: what is before it and after it.\<close>

fun split_once :: "string \<Rightarrow> string \<Rightarrow> (string \<times> string) option" where
  "split_once p [] = (if p = [] then Some ([], []) else None)"
| "split_once p (c # cs) =
     (if starts_with p (c # cs) then Some ([], drop (length p) (c # cs))
      else (case split_once p cs of
              None \<Rightarrow> None
            | Some (a, b) \<Rightarrow> Some (c # a, b)))"

text \<open>The number of positions at which a pattern occurs in a string.\<close>

fun occurrences :: "string \<Rightarrow> string \<Rightarrow> nat" where
  "occurrences p [] = 0"
| "occurrences p (c # cs) = (if starts_with p (c # cs) then 1 else 0) + occurrences p cs"

definition contains :: "string \<Rightarrow> string \<Rightarrow> bool" where
  "contains p s = (0 < occurrences p s)"

text \<open>
  The maximal runs of elements that satisfy \<open>P\<close>, in order. On the characters of a line
  with \<open>is_word_char\<close> these are its word tokens; on the lines of a file with "not blank"
  they are its paragraphs.
\<close>

fun runs :: "('a \<Rightarrow> bool) \<Rightarrow> 'a list \<Rightarrow> 'a list \<Rightarrow> 'a list list" where
  "runs P cur [] = (if cur = [] then [] else [cur])"
| "runs P cur (x # xs) =
     (if P x then runs P (cur @ [x]) xs
      else (if cur = [] then [] else [cur]) @ runs P [] xs)"

definition tokens :: "string \<Rightarrow> string list" where
  "tokens s = runs is_word_char [] s"

subsection \<open>Annotations and groups\<close>

text \<open>
  An annotation is a comment line of the shape
  \<^verbatim>\<open># <description> - should be tagged as "<Category>"\<close>:
  the reader returns the description and the category, and nothing for any other line.
\<close>

definition annotation_marker :: string where
  \<open>annotation_marker = '' - should be tagged as "''\<close>

definition parse_annotation :: "string \<Rightarrow> (string \<times> string) option" where
  "parse_annotation l =
     (if starts_with ''# '' l then
        (case split_once annotation_marker (drop 2 l) of
           None \<Rightarrow> None
         | Some (d, r) \<Rightarrow>
             if d \<noteq> [] \<and> r \<noteq> [] \<and> last r = dq \<and> butlast r \<noteq> [] \<and> dq \<notin> set (butlast r)
             then Some (d, butlast r) else None)
      else None)"

definition is_annotation :: "string \<Rightarrow> bool" where
  "is_annotation l = (parse_annotation l \<noteq> None)"

definition category_labels :: "string list \<Rightarrow> string list" where
  "category_labels ls = map snd (List.map_filter parse_annotation ls)"

text \<open>
  A group is a paragraph: a maximal run of non-blank lines, each with its line number.
  Its label is the category its first line announces, if that line is an annotation.
\<close>

definition paragraphs :: "string list \<Rightarrow> (nat \<times> string) list list" where
  "paragraphs ls = runs (\<lambda>nl. \<not> is_blank (snd nl)) [] (numbered ls)"

definition group_label :: "(nat \<times> string) list \<Rightarrow> string option" where
  "group_label g = (case g of [] \<Rightarrow> None | nl # rest \<Rightarrow> map_option snd (parse_annotation (snd nl)))"

definition group_lines :: "(nat \<times> string) list \<Rightarrow> nat list" where
  "group_lines g = map fst g"

definition annotated_groups :: "string list \<Rightarrow> (nat \<times> string) list list" where
  "annotated_groups ls = filter (\<lambda>g. group_label g \<noteq> None) (paragraphs ls)"

text \<open>The labels of the annotated groups that hold a given line.\<close>

definition groups_of_line :: "string list \<Rightarrow> nat \<Rightarrow> string list" where
  "groups_of_line ls n =
     List.map_filter group_label (filter (\<lambda>g. n \<in> set (group_lines g)) (paragraphs ls))"

section \<open>The fixture file as a syntax tree\<close>

text \<open>
  The part of Python's grammar the file is written in. Expressions keep the quote style of
  their string literals and statements keep comments and blank lines, so that the tree can
  be printed back to the exact text of the file.
\<close>

datatype quote = SQ | DQ

datatype expr =
    Name string
  | Attr expr string
  | Call expr "arg list"
  | Str quote string
  | FStr quote "fpart list"
  | Num nat
and arg =
    Pos expr
  | Kw string expr
and fpart =
    Lit string
  | Interp expr

datatype stmt =
    Import string
  | Assign string expr
  | ExprStmt expr
  | Raise expr
  | If expr "stmt list" "stmt list"
  | Try "stmt list" expr "string option" "stmt list"
  | Comment string
  | Blank

definition module_ast :: "stmt list" where
  \<open>module_ast =
   [Import ''requests'',
    Import ''json'',
    Blank,
    Comment '' Network calls - should be tagged as "Network Call"'',
    Assign ''response'' (Call (Attr (Name ''requests'') ''get'') [Pos (Str SQ ''https://api.example.com'')]),
    Assign ''fetch_data'' (Call (Attr (Name ''http'') ''get'') [Pos (Str SQ ''/api/users'')]),
    Blank,
    Comment '' Debug statements - should be tagged as "Debug Statement"'',
    ExprStmt (Call (Name ''print'') [Pos (Str DQ ''Debug message'')]),
    ExprStmt (Call (Attr (Name ''console'') ''log'') [Pos (Str DQ ''Another debug'')]),
    ExprStmt (Call (Name ''debugger'') []),
    Blank,
    Comment '' TODOs - should be tagged as "Unfinished Block"'',
    Comment '' TODO: Add error handling'',
    Comment '' FIXME: This function is broken'',
    Comment '' HACK: Temporary fix for the bug'',
    Comment '' NOTE: Remember to update this'',
    Blank,
    Comment '' Database operations - should be tagged as "Database Operation"'',
    Assign ''user'' (Call (Attr (Attr (Name ''User'') ''objects'') ''get'') [Kw ''id'' (Num 1)]),
    Assign ''query'' (Str DQ ''SELECT * FROM users WHERE active = 1''),
    ExprStmt (Call (Attr (Name ''User'') ''create'')
                [Kw ''name'' (Str DQ ''John''), Kw ''email'' (Str DQ ''john@example.com'')]),
    ExprStmt (Call (Attr (Name ''users'') ''save'') []),
    Blank,
    Comment '' Error handling - should be tagged as "Error Handling"'',
    Try [ExprStmt (Call (Name ''risky_operation'') [])]
        (Name ''Exception'') (Some ''e'')
        [ExprStmt (Call (Name ''print'') [Pos (FStr DQ [Lit ''Error: '', Interp (Name ''e'')])]),
         Raise (Call (Name ''ValueError'') [Pos (Str DQ ''Custom error'')])],
    Blank,
    Comment '' Authentication - should be tagged as "Authentication"'',
    Assign ''token'' (Call (Name ''generate_jwt_token'') [Pos (Name ''user_id'')]),
    If (Call (Attr (Name ''user'') ''is_authenticated'') [])
       [ExprStmt (Call (Name ''login_user'') [Pos (Name ''user'')])]
       [],
    Assign ''password_hash'' (Call (Name ''hash_password'') [Pos (Name ''password'')]),
    Blank,
    Comment '' Configuration - should be tagged as "Configuration"'',
    Assign ''api_key'' (Call (Attr (Attr (Name ''os'') ''environ'') ''get'') [Pos (Str SQ ''API_KEY'')]),
    Assign ''config'' (Call (Name ''load_config_file'') []),
    Assign ''settings'' (Call (Name ''get_app_settings'') [])]\<close>

subsection \<open>Printing the tree\<close>

definition quote_char :: "quote \<Rightarrow> char" where
  "quote_char q = (case q of SQ \<Rightarrow> CHR 0x27 | DQ \<Rightarrow> CHR 0x22)"

fun digits :: "nat \<Rightarrow> string" where
  "digits n =
     (if n < 10 then [''0123456789'' ! n]
      else digits (n div 10) @ [''0123456789'' ! (n mod 10)])"

fun render_expr :: "expr \<Rightarrow> string"
  and render_args :: "arg list \<Rightarrow> string"
  and render_arg :: "arg \<Rightarrow> string"
  and render_parts :: "fpart list \<Rightarrow> string"
  and render_part :: "fpart \<Rightarrow> string"
where
  "render_expr (Name x) = x"
| "render_expr (Attr e a) = render_expr e @ ''.'' @ a"
| "render_expr (Call f as) = render_expr f @ ''('' @ render_args as @ '')''"
| "render_expr (Str q s) = quote_char q # s @ [quote_char q]"
| "render_expr (FStr q ps) = ''f'' @ quote_char q # render_parts ps @ [quote_char q]"
| "render_expr (Num n) = digits n"
| "render_args [] = []"
| "render_args [a] = render_arg a"
| "render_args (a # b # as) = render_arg a @ '', '' @ render_args (b # as)"
| "render_arg (Pos e) = render_expr e"
| "render_arg (Kw k e) = k @ ''='' @ render_expr e"
| "render_parts [] = []"
| "render_parts (p # ps) = render_part p @ render_parts ps"
| "render_part (Lit s) = s"
| "render_part (Interp e) = ''{'' @ render_expr e @ ''}''"

fun render_stmt :: "string \<Rightarrow> stmt \<Rightarrow> string list"
  and render_block :: "string \<Rightarrow> stmt list \<Rightarrow> string list"
where
  "render_stmt ind (Import m) = [ind @ ''import '' @ m]"
| "render_stmt ind (Assign x e) = [ind @ x @ '' = '' @ render_expr e]"
| "render_stmt ind (ExprStmt e) = [ind @ render_expr e]"
| "render_stmt ind (Raise e) = [ind @ ''raise '' @ render_expr e]"
| "render_stmt ind (If c body orelse) =
     (ind @ ''if '' @ render_expr c @ '':'') # render_block (ind @ ''    '') body
       @ (if orelse = [] then [] else (ind @ ''else:'') # render_block (ind @ ''    '') orelse)"
| "render_stmt ind (Try body t alias handler) =
     (ind @ ''try:'') # render_block (ind @ ''    '') body
       @ (ind @ ''except '' @ render_expr t
            @ (case alias of None \<Rightarrow> [] | Some a \<Rightarrow> '' as '' @ a) @ '':'')
       # render_block (ind @ ''    '') handler"
| "render_stmt ind (Comment s) = [ind @ ''#'' @ s]"
| "render_stmt ind Blank = [[]]"
| "render_block ind [] = []"
| "render_block ind (s # ss) = render_stmt ind s @ render_block ind ss"

definition render_module :: "stmt list \<Rightarrow> string list" where
  "render_module m = render_block [] m"

subsection \<open>Line numbers of statements\<close>

text \<open>
  The number of lines a statement takes in the file, and every statement of a block
  (nested ones too) with the line it starts on.
\<close>

fun height :: "stmt \<Rightarrow> nat"
  and block_height :: "stmt list \<Rightarrow> nat"
where
  "height (If c body orelse) =
     1 + block_height body + (if orelse = [] then 0 else 1 + block_height orelse)"
| "height (Try body t alias handler) = 2 + block_height body + block_height handler"
| "height (Import m) = 1"
| "height (Assign x e) = 1"
| "height (ExprStmt e) = 1"
| "height (Raise e) = 1"
| "height (Comment s) = 1"
| "height Blank = 1"
| "block_height [] = 0"
| "block_height (s # ss) = height s + block_height ss"

fun locate :: "nat \<Rightarrow> stmt \<Rightarrow> (nat \<times> stmt) list"
  and locate_block :: "nat \<Rightarrow> stmt list \<Rightarrow> (nat \<times> stmt) list"
where
  "locate ln (If c body orelse) =
     (ln, If c body orelse) # locate_block (ln + 1) body
       @ locate_block (ln + 2 + block_height body) orelse"
| "locate ln (Try body t alias handler) =
     (ln, Try body t alias handler) # locate_block (ln + 1) body
       @ locate_block (ln + 2 + block_height body) handler"
| "locate ln (Import m) = [(ln, Import m)]"
| "locate ln (Assign x e) = [(ln, Assign x e)]"
| "locate ln (ExprStmt e) = [(ln, ExprStmt e)]"
| "locate ln (Raise e) = [(ln, Raise e)]"
| "locate ln (Comment s) = [(ln, Comment s)]"
| "locate ln Blank = [(ln, Blank)]"
| "locate_block ln [] = []"
| "locate_block ln (s # ss) = locate ln s @ locate_block (ln + height s) ss"

fun is_try :: "stmt \<Rightarrow> bool" where
  "is_try (Try body t alias handler) = True"
| "is_try s = False"

fun is_raise :: "stmt \<Rightarrow> bool" where
  "is_raise (Raise e) = True"
| "is_raise s = False"

fun is_if :: "stmt \<Rightarrow> bool" where
  "is_if (If c body orelse) = True"
| "is_if s = False"

fun is_import_stmt :: "stmt \<Rightarrow> bool" where
  "is_import_stmt (Import m) = True"
| "is_import_stmt s = False"

fun is_layout :: "stmt \<Rightarrow> bool" where
  "is_layout (Comment s) = True"
| "is_layout Blank = True"
| "is_layout s = False"

definition stmts_where :: "(stmt \<Rightarrow> bool) \<Rightarrow> stmt list \<Rightarrow> (nat \<times> stmt) list" where
  "stmts_where P m = filter (\<lambda>ls. P (snd ls)) (locate_block 1 m)"

text \<open>The top-level statements of a module with their first lines.\<close>

fun top_level :: "nat \<Rightarrow> stmt list \<Rightarrow> (nat \<times> stmt) list" where
  "top_level ln [] = []"
| "top_level ln (s # ss) = (ln, s) # top_level (ln + height s) ss"

subsection \<open>Names\<close>

text \<open>
  The names an expression or statement reads, in the order Python evaluates them, and
  the names a statement binds (an import, the target of an assignment, the alias of an
  \<^verbatim>\<open>except\<close> clause). A keyword of a call (\<^verbatim>\<open>id=1\<close>) and an attribute are not names.
\<close>

fun loads_expr :: "expr \<Rightarrow> string list"
  and loads_args :: "arg list \<Rightarrow> string list"
  and loads_arg :: "arg \<Rightarrow> string list"
  and loads_parts :: "fpart list \<Rightarrow> string list"
  and loads_part :: "fpart \<Rightarrow> string list"
where
  "loads_expr (Name x) = [x]"
| "loads_expr (Attr e a) = loads_expr e"
| "loads_expr (Call f as) = loads_expr f @ loads_args as"
| "loads_expr (Str q s) = []"
| "loads_expr (FStr q ps) = loads_parts ps"
| "loads_expr (Num n) = []"
| "loads_args [] = []"
| "loads_args (a # as) = loads_arg a @ loads_args as"
| "loads_arg (Pos e) = loads_expr e"
| "loads_arg (Kw k e) = loads_expr e"
| "loads_parts [] = []"
| "loads_parts (p # ps) = loads_part p @ loads_parts ps"
| "loads_part (Lit s) = []"
| "loads_part (Interp e) = loads_expr e"

fun loads_stmt :: "stmt \<Rightarrow> string list"
  and loads_block :: "stmt list \<Rightarrow> string list"
where
  "loads_stmt (Import m) = []"
| "loads_stmt (Assign x e) = loads_expr e"
| "loads_stmt (ExprStmt e) = loads_expr e"
| "loads_stmt (Raise e) = loads_expr e"
| "loads_stmt (If c body orelse) = loads_expr c @ loads_block body @ loads_block orelse"
| "loads_stmt (Try body t alias handler) = loads_block body @ loads_expr t @ loads_block handler"
| "loads_stmt (Comment s) = []"
| "loads_stmt Blank = []"
| "loads_block [] = []"
| "loads_block (s # ss) = loads_stmt s @ loads_block ss"

fun binds_stmt :: "stmt \<Rightarrow> string list"
  and binds_block :: "stmt list \<Rightarrow> string list"
where
  "binds_stmt (Import m) = [m]"
| "binds_stmt (Assign x e) = [x]"
| "binds_stmt (ExprStmt e) = []"
| "binds_stmt (Raise e) = []"
| "binds_stmt (If c body orelse) = binds_block body @ binds_block orelse"
| "binds_stmt (Try body t alias handler) =
     binds_block body @ (case alias of None \<Rightarrow> [] | Some a \<Rightarrow> [a]) @ binds_block handler"
| "binds_stmt (Comment s) = []"
| "binds_stmt Blank = []"
| "binds_block [] = []"
| "binds_block (s # ss) = binds_stmt s @ binds_block ss"

fun imports_of :: "stmt list \<Rightarrow> string list" where
  "imports_of [] = []"
| "imports_of (Import m # ss) = m # imports_of ss"
| "imports_of (s # ss) = imports_of ss"

text \<open>
  The names Python resolves without any import: the 157 names of its built-in namespace
  (module \<^verbatim>\<open>builtins\<close> of Python 3.11), first the functions, types and constants, then
  the exception classes. The fixture reads three of them: \<^verbatim>\<open>print\<close>, \<^verbatim>\<open>Exception\<close>
  and \<^verbatim>\<open>ValueError\<close>.
\<close>

definition builtin_names :: "string list" where
  "builtin_names =
   [''Ellipsis'', ''False'', ''None'', ''NotImplemented'', ''True'', ''__build_class__'',
    ''__debug__'', ''__doc__'', ''__import__'', ''__loader__'', ''__name__'',
    ''__package__'', ''__spec__'', ''abs'', ''aiter'', ''all'', ''anext'', ''any'',
    ''ascii'', ''bin'', ''bool'', ''breakpoint'', ''bytearray'', ''bytes'', ''callable'',
    ''chr'', ''classmethod'', ''compile'', ''complex'', ''copyright'', ''credits'',
    ''delattr'', ''dict'', ''dir'', ''divmod'', ''enumerate'', ''eval'', ''exec'', ''exit'',
    ''filter'', ''float'', ''format'', ''frozenset'', ''getattr'', ''globals'', ''hasattr'',
    ''hash'', ''help'', ''hex'', ''id'', ''input'', ''int'', ''isinstance'', ''issubclass'',
    ''iter'', ''len'', ''license'', ''list'', ''locals'', ''map'', ''max'', ''memoryview'',
    ''min'', ''next'', ''object'', ''oct'', ''open'', ''ord'', ''pow'', ''print'',
    ''property'', ''quit'', ''range'', ''repr'', ''reversed'', ''round'', ''set'',
    ''setattr'', ''slice'', ''sorted'', ''staticmethod'', ''str'', ''sum'', ''super'',
    ''tuple'', ''type'', ''vars'', ''zip'', ''ArithmeticError'', ''AssertionError'',
    ''AttributeError'', ''BaseException'', ''BaseExceptionGroup'', ''BlockingIOError'',
    ''BrokenPipeError'', ''BufferError'', ''BytesWarning'', ''ChildProcessError'',
    ''ConnectionAbortedError'', ''ConnectionError'', ''ConnectionRefusedError'',
    ''ConnectionResetError'', ''DeprecationWarning'', ''EOFError'', ''EncodingWarning'',
    ''EnvironmentError'', ''Exception'', ''ExceptionGroup'', ''FileExistsError'',
    ''FileNotFoundError'', ''FloatingPointError'', ''FutureWarning'', ''GeneratorExit'',
    ''IOError'', ''ImportError'', ''ImportWarning'', ''IndentationError'', ''IndexError'',
    ''InterruptedError'', ''IsADirectoryError'', ''KeyError'', ''KeyboardInterrupt'',
    ''LookupError'', ''MemoryError'', ''ModuleNotFoundError'', ''NameError'',
    ''NotADirectoryError'', ''NotImplementedError'', ''OSError'', ''OverflowError'',
    ''PendingDeprecationWarning'', ''PermissionError'', ''ProcessLookupError'',
    ''RecursionError'', ''ReferenceError'', ''ResourceWarning'', ''RuntimeError'',
    ''RuntimeWarning'', ''StopAsyncIteration'', ''StopIteration'', ''SyntaxError'',
    ''SyntaxWarning'', ''SystemError'', ''SystemExit'', ''TabError'', ''TimeoutError'',
    ''TypeError'', ''UnboundLocalError'', ''UnicodeDecodeError'', ''UnicodeEncodeError'',
    ''UnicodeError'', ''UnicodeTranslateError'', ''UnicodeWarning'', ''UserWarning'',
    ''ValueError'', ''Warning'', ''ZeroDivisionError'']"

text \<open>The names read somewhere in the module, each once, in the order of their first use.\<close>

definition referenced_names :: "stmt list \<Rightarrow> string list" where
  "referenced_names m = rev (remdups (rev (loads_block m)))"

text \<open>
  The names the module reads but that no statement of it binds and Python does not provide.
\<close>

definition undefined_names :: "stmt list \<Rightarrow> string list" where
  "undefined_names m =
     filter (\<lambda>x. x \<notin> set (binds_block m) \<and> x \<notin> set builtin_names) (referenced_names m)"

section \<open>Running the module\<close>

text \<open>
  What Python does with the module when it is run or imported: it executes the top-level
  statements in order, in a namespace that starts with the built-in names. Values are
  opaque here; what the model tracks is which names are bound, where control goes, and
  which exception stops the run.

  Everything the text of the file does not determine is a parameter, the \<open>world\<close>:
  whether a module to import is missing, which exception (if any) an attribute access or
  a call raises, and whether a condition holds. A name that is not bound raises
  \<^verbatim>\<open>NameError\<close> in every world.
\<close>

datatype exn = NameError string | Failure string

datatype outcome = Done "string list" | Raised nat exn "string list"

record world =
  missing :: "string \<Rightarrow> bool"
  fails :: "nat \<Rightarrow> expr \<Rightarrow> string option"
  truth :: "nat \<Rightarrow> bool"

fun eval_expr :: "world \<Rightarrow> nat \<Rightarrow> string list \<Rightarrow> expr \<Rightarrow> exn option"
  and eval_args :: "world \<Rightarrow> nat \<Rightarrow> string list \<Rightarrow> arg list \<Rightarrow> exn option"
  and eval_arg :: "world \<Rightarrow> nat \<Rightarrow> string list \<Rightarrow> arg \<Rightarrow> exn option"
  and eval_parts :: "world \<Rightarrow> nat \<Rightarrow> string list \<Rightarrow> fpart list \<Rightarrow> exn option"
  and eval_part :: "world \<Rightarrow> nat \<Rightarrow> string list \<Rightarrow> fpart \<Rightarrow> exn option"
where
  "eval_expr w ln env (Name x) = (if x \<in> set env then None else Some (NameError x))"
| "eval_expr w ln env (Attr e a) =
     (case eval_expr w ln env e of
        Some ex \<Rightarrow> Some ex
      | None \<Rightarrow> map_option Failure (fails w ln (Attr e a)))"
| "eval_expr w ln env (Call f as) =
     (case eval_expr w ln env f of
        Some ex \<Rightarrow> Some ex
      | None \<Rightarrow>
          (case eval_args w ln env as of
             Some ex \<Rightarrow> Some ex
           | None \<Rightarrow> map_option Failure (fails w ln (Call f as))))"
| "eval_expr w ln env (Str q s) = None"
| "eval_expr w ln env (FStr q ps) = eval_parts w ln env ps"
| "eval_expr w ln env (Num n) = None"
| "eval_args w ln env [] = None"
| "eval_args w ln env (a # as) =
     (case eval_arg w ln env a of
        Some ex \<Rightarrow> Some ex
      | None \<Rightarrow> eval_args w ln env as)"
| "eval_arg w ln env (Pos e) = eval_expr w ln env e"
| "eval_arg w ln env (Kw k e) = eval_expr w ln env e"
| "eval_parts w ln env [] = None"
| "eval_parts w ln env (p # ps) =
     (case eval_part w ln env p of
        Some ex \<Rightarrow> Some ex
      | None \<Rightarrow> eval_parts w ln env ps)"
| "eval_part w ln env (Lit s) = None"
| "eval_part w ln env (Interp e) = eval_expr w ln env e"

fun exn_class :: "exn \<Rightarrow> string" where
  "exn_class (NameError x) = ''NameError''"
| "exn_class (Failure c) = c"

text \<open>
  The class a \<^verbatim>\<open>raise\<close> statement raises, read off the expression: the class that is
  called or named.
\<close>

fun raised_class :: "expr \<Rightarrow> string" where
  "raised_class (Call (Name c) as) = c"
| "raised_class (Name c) = c"
| "raised_class e = ''Exception''"

text \<open>
  The built-in exception classes of Python 3.11, each with the classes it is derived from
  directly. \<^verbatim>\<open>EnvironmentError\<close> and \<^verbatim>\<open>IOError\<close> are further names of
  \<^verbatim>\<open>OSError\<close>. A class that is not in the table is one a library or a program defines;
  the model takes it as derived from \<^verbatim>\<open>Exception\<close>, as Python asks of such classes.
\<close>

definition exception_bases :: "(string \<times> string list) list" where
  "exception_bases =
   [(''ArithmeticError'', [''Exception'']), (''AssertionError'', [''Exception'']),
    (''AttributeError'', [''Exception'']), (''BaseException'', []),
    (''BaseExceptionGroup'', [''BaseException'']), (''BlockingIOError'', [''OSError'']),
    (''BrokenPipeError'', [''ConnectionError'']), (''BufferError'', [''Exception'']),
    (''BytesWarning'', [''Warning'']), (''ChildProcessError'', [''OSError'']),
    (''ConnectionAbortedError'', [''ConnectionError'']),
    (''ConnectionError'', [''OSError'']),
    (''ConnectionRefusedError'', [''ConnectionError'']),
    (''ConnectionResetError'', [''ConnectionError'']),
    (''DeprecationWarning'', [''Warning'']), (''EOFError'', [''Exception'']),
    (''EncodingWarning'', [''Warning'']), (''Exception'', [''BaseException'']),
    (''ExceptionGroup'', [''BaseExceptionGroup'', ''Exception'']),
    (''FileExistsError'', [''OSError'']), (''FileNotFoundError'', [''OSError'']),
    (''FloatingPointError'', [''ArithmeticError'']), (''FutureWarning'', [''Warning'']),
    (''GeneratorExit'', [''BaseException'']), (''ImportError'', [''Exception'']),
    (''ImportWarning'', [''Warning'']), (''IndentationError'', [''SyntaxError'']),
    (''IndexError'', [''LookupError'']), (''InterruptedError'', [''OSError'']),
    (''IsADirectoryError'', [''OSError'']), (''KeyError'', [''LookupError'']),
    (''KeyboardInterrupt'', [''BaseException'']), (''LookupError'', [''Exception'']),
    (''MemoryError'', [''Exception'']), (''ModuleNotFoundError'', [''ImportError'']),
    (''NameError'', [''Exception'']), (''NotADirectoryError'', [''OSError'']),
    (''NotImplementedError'', [''RuntimeError'']), (''OSError'', [''Exception'']),
    (''OverflowError'', [''ArithmeticError'']),
    (''PendingDeprecationWarning'', [''Warning'']), (''PermissionError'', [''OSError'']),
    (''ProcessLookupError'', [''OSError'']), (''RecursionError'', [''RuntimeError'']),
    (''ReferenceError'', [''Exception'']), (''ResourceWarning'', [''Warning'']),
    (''RuntimeError'', [''Exception'']), (''RuntimeWarning'', [''Warning'']),
    (''StopAsyncIteration'', [''Exception'']), (''StopIteration'', [''Exception'']),
    (''SyntaxError'', [''Exception'']), (''SyntaxWarning'', [''Warning'']),
    (''SystemError'', [''Exception'']), (''SystemExit'', [''BaseException'']),
    (''TabError'', [''IndentationError'']), (''TimeoutError'', [''OSError'']),
    (''TypeError'', [''Exception'']), (''UnboundLocalError'', [''NameError'']),
    (''UnicodeDecodeError'', [''UnicodeError'']),
    (''UnicodeEncodeError'', [''UnicodeError'']), (''UnicodeError'', [''ValueError'']),
    (''UnicodeTranslateError'', [''UnicodeError'']), (''UnicodeWarning'', [''Warning'']),
    (''UserWarning'', [''Warning'']), (''ValueError'', [''Exception'']),
    (''Warning'', [''Exception'']), (''ZeroDivisionError'', [''ArithmeticError''])]"

definition class_of_name :: "string \<Rightarrow> string" where
  "class_of_name n = (if n = ''EnvironmentError'' \<or> n = ''IOError'' then ''OSError'' else n)"

definition bases_of :: "string \<Rightarrow> string list" where
  "bases_of c = (case map_of exception_bases c of None \<Rightarrow> [''Exception''] | Some bs \<Rightarrow> bs)"

text \<open>
  Whether class \<open>c\<close> is class \<open>t\<close> or derived from it in at most \<open>n\<close> steps. The longest
  chain of the table has four steps (\<^verbatim>\<open>TabError\<close> to \<^verbatim>\<open>BaseException\<close>), five with
  a class outside the table in front.
\<close>

fun derives :: "nat \<Rightarrow> string \<Rightarrow> string \<Rightarrow> bool" where
  "derives 0 c t = (c = t)"
| "derives (Suc n) c t = (if c = t then True else list_ex (\<lambda>b. derives n b t) (bases_of c))"

text \<open>
  Whether \<^verbatim>\<open>except t\<close> catches an exception of class \<open>c\<close>: when \<open>t\<close> names the class
  or a class it is derived from. A clause whose type is not a plain name (a tuple, an
  attribute of a module) is outside the model and catches nothing.
\<close>

definition catches :: "expr \<Rightarrow> string \<Rightarrow> bool" where
  "catches t c =
     (case t of
        Name n \<Rightarrow> derives 8 (class_of_name c) (class_of_name n)
      | _ \<Rightarrow> False)"

text \<open>Python unbinds the alias of an \<^verbatim>\<open>except\<close> clause when the clause is left.\<close>

fun unbind :: "string \<Rightarrow> outcome \<Rightarrow> outcome" where
  "unbind x (Done env) = Done (removeAll x env)"
| "unbind x (Raised l ex env) = Raised l ex (removeAll x env)"

fun exec :: "world \<Rightarrow> nat \<Rightarrow> string list \<Rightarrow> stmt \<Rightarrow> outcome"
  and exec_block :: "world \<Rightarrow> nat \<Rightarrow> string list \<Rightarrow> stmt list \<Rightarrow> outcome"
where
  "exec w ln env (Import m) =
     (if missing w m then Raised ln (Failure ''ModuleNotFoundError'') env else Done (m # env))"
| "exec w ln env (Assign x e) =
     (case eval_expr w ln env e of
        Some ex \<Rightarrow> Raised ln ex env
      | None \<Rightarrow> Done (x # env))"
| "exec w ln env (ExprStmt e) =
     (case eval_expr w ln env e of
        Some ex \<Rightarrow> Raised ln ex env
      | None \<Rightarrow> Done env)"
| "exec w ln env (Raise e) =
     (case eval_expr w ln env e of
        Some ex \<Rightarrow> Raised ln ex env
      | None \<Rightarrow> Raised ln (Failure (raised_class e)) env)"
| "exec w ln env (If c body orelse) =
     (case eval_expr w ln env c of
        Some ex \<Rightarrow> Raised ln ex env
      | None \<Rightarrow>
          if truth w ln then exec_block w (ln + 1) env body
          else exec_block w (ln + 2 + block_height body) env orelse)"
| "exec w ln env (Try body t alias handler) =
     (case exec_block w (ln + 1) env body of
        Done env' \<Rightarrow> Done env'
      | Raised l ex env' \<Rightarrow>
          (case eval_expr w (ln + 1 + block_height body) env' t of
             Some ex' \<Rightarrow> Raised (ln + 1 + block_height body) ex' env'
           | None \<Rightarrow>
               if catches t (exn_class ex) then
                 (case alias of
                    None \<Rightarrow> exec_block w (ln + 2 + block_height body) env' handler
                  | Some x \<Rightarrow>
                      unbind x (exec_block w (ln + 2 + block_height body) (x # env') handler))
               else Raised l ex env'))"
| "exec w ln env (Comment s) = Done env"
| "exec w ln env Blank = Done env"
| "exec_block w ln env [] = Done env"
| "exec_block w ln env (s # ss) =
     (case exec w ln env s of
        Done env' \<Rightarrow> exec_block w (ln + height s) env' ss
      | Raised l ex env' \<Rightarrow> Raised l ex env')"

definition exec_module :: "world \<Rightarrow> stmt list \<Rightarrow> outcome" where
  "exec_module w m = exec_block w 1 builtin_names m"

fun is_call :: "expr \<Rightarrow> bool" where
  "is_call (Call f as) = True"
| "is_call e = False"

text \<open>The world in which no module is missing, no operation raises and every condition holds.\<close>

definition calm :: world where
  "calm = \<lparr>missing = (\<lambda>m. False), fails = (\<lambda>ln e. None), truth = (\<lambda>ln. True)\<rparr>"

text \<open>The same world, except that the request on line 5 cannot reach its server.\<close>

definition offline :: world where
  "offline = calm\<lparr>fails := (\<lambda>ln e. if ln = 5 \<and> is_call e then Some ''ConnectionError'' else None)\<rparr>"

section \<open>Readers for the claims\<close>

text \<open>
  The keyword that opens a code line tells the kind of statement. A keyword can also stand
  inside an expression (a comprehension, a conditional expression, a lambda): \<open>mentions\<close>
  looks at every word token of the line.
\<close>

definition branching_keywords :: "string list" where
  "branching_keywords = [''if'', ''elif'', ''else'', ''match'']"

definition looping_keywords :: "string list" where
  "looping_keywords = [''for'', ''while'']"

definition exception_keywords :: "string list" where
  "exception_keywords = [''try'', ''except'', ''finally'', ''raise'', ''assert'']"

definition definition_keywords :: "string list" where
  "definition_keywords = [''def'', ''class'', ''async'', ''lambda'']"

definition keyword_lines :: "string list \<Rightarrow> string list \<Rightarrow> nat list" where
  "keyword_lines kws ls = lines_where (\<lambda>l. is_code l \<and> first_word l \<in> set kws) ls"

definition mentions :: "string list \<Rightarrow> string \<Rightarrow> bool" where
  "mentions ws l = list_ex (\<lambda>t. t \<in> set ws) (tokens l)"

definition mention_lines :: "string list \<Rightarrow> string list \<Rightarrow> nat list" where
  "mention_lines ws ls = lines_where (\<lambda>l. is_code l \<and> mentions ws l) ls"

text \<open>A file without control flow: no line opens a branch, a loop or exception handling.\<close>

definition no_control_flow :: "string list \<Rightarrow> bool" where
  "no_control_flow ls =
     (keyword_lines branching_keywords ls = [] \<and>
      keyword_lines looping_keywords ls = [] \<and>
      keyword_lines exception_keywords ls = [])"

text \<open>The lines of a group under its first line, and whether one of them is code.\<close>

definition group_body :: "(nat \<times> string) list \<Rightarrow> string list" where
  "group_body g = map snd (tl g)"

definition has_code_line :: "(nat \<times> string) list \<Rightarrow> bool" where
  "has_code_line g = list_ex is_code (group_body g)"

definition group_named :: "string \<Rightarrow> string list \<Rightarrow> (nat \<times> string) list list" where
  "group_named c ls = filter (\<lambda>g. group_label g = Some c) (paragraphs ls)"

text \<open>The markers of unfinished work that a comment can carry.\<close>

definition markers :: "string list" where
  "markers = [''TODO'', ''FIXME'', ''HACK'', ''NOTE'']"

definition markers_of :: "string \<Rightarrow> string list" where
  "markers_of l = filter (\<lambda>t. t \<in> set markers) (tokens l)"

text \<open>How often a text occurs in a file, over all its lines.\<close>

definition occurrences_in :: "string list \<Rightarrow> string \<Rightarrow> nat" where
  "occurrences_in ls p = sum_list (map (occurrences p) ls)"

definition quoted :: "string \<Rightarrow> string" where
  "quoted c = dq # c @ [dq]"

text \<open>An annotation, written out from its description and its category.\<close>

definition annotation_text :: "string \<times> string \<Rightarrow> string" where
  "annotation_text dc = ''# '' @ fst dc @ annotation_marker @ snd dc @ [dq]"

text \<open>The lines that carry a marker as a word of its own, each with the markers it carries.\<close>

definition marker_lines :: "string list \<Rightarrow> (nat \<times> string list) list" where
  "marker_lines ls =
     filter (\<lambda>nm. snd nm \<noteq> []) (map (\<lambda>nl. (fst nl, markers_of (snd nl))) (numbered ls))"

text \<open>The lines of all annotated groups, group after group.\<close>

definition sample_lines :: "string list \<Rightarrow> nat list" where
  "sample_lines ls = concat (map group_lines (annotated_groups ls))"

text \<open>The words of the guard that makes a module a script: \<^verbatim>\<open>if __name__ == "__main__":\<close>.\<close>

definition entry_point_words :: "string list" where
  "entry_point_words = [''__name__'', ''__main__'']"

text \<open>The names the module reads that are bound when it runs far enough, or built in.\<close>

definition resolvable_names :: "stmt list \<Rightarrow> string list" where
  "resolvable_names m =
     filter (\<lambda>x. x \<in> set (binds_block m) \<or> x \<in> set builtin_names) (referenced_names m)"

text \<open>
  Where names are bound: every binding of a block with its line. An import and an assignment
  bind on their own line, an \<^verbatim>\<open>except\<close> clause binds its alias on the line of the
  clause.
\<close>

fun bind_sites :: "nat \<Rightarrow> stmt \<Rightarrow> (nat \<times> string) list"
  and bind_sites_block :: "nat \<Rightarrow> stmt list \<Rightarrow> (nat \<times> string) list"
where
  "bind_sites ln (Import m) = [(ln, m)]"
| "bind_sites ln (Assign x e) = [(ln, x)]"
| "bind_sites ln (ExprStmt e) = []"
| "bind_sites ln (Raise e) = []"
| "bind_sites ln (If c body orelse) =
     bind_sites_block (ln + 1) body @ bind_sites_block (ln + 2 + block_height body) orelse"
| "bind_sites ln (Try body t alias handler) =
     bind_sites_block (ln + 1) body
       @ (case alias of None \<Rightarrow> [] | Some a \<Rightarrow> [(ln + 1 + block_height body, a)])
       @ bind_sites_block (ln + 2 + block_height body) handler"
| "bind_sites ln (Comment s) = []"
| "bind_sites ln Blank = []"
| "bind_sites_block ln [] = []"
| "bind_sites_block ln (s # ss) = bind_sites ln s @ bind_sites_block (ln + height s) ss"

definition binding_lines :: "string \<Rightarrow> stmt list \<Rightarrow> nat list" where
  "binding_lines x m = map fst (filter (\<lambda>la. snd la = x) (bind_sites_block 1 m))"

text \<open>
  The lines of a group under its annotation, the lines of a file on which a marker occurs
  as plain text (as a word or inside one), and whether all of these lie under the
  annotation of the group "Unfinished Block".
\<close>

definition body_lines :: "string \<Rightarrow> string list \<Rightarrow> nat list" where
  "body_lines c ls = concat (map (\<lambda>g. tl (group_lines g)) (group_named c ls))"

definition marker_text_lines :: "string list \<Rightarrow> nat list" where
  "marker_text_lines ls = lines_where (\<lambda>l. list_ex (\<lambda>m. contains m l) markers) ls"

definition markers_confined :: "string list \<Rightarrow> bool" where
  "markers_confined ls =
     list_all (\<lambda>n. n \<in> set (body_lines ''Unfinished Block'' ls)) (marker_text_lines ls)"

section \<open>Properties of the readers, the printer and the run\<close>

lemma starts_with_take: "starts_with p s = (take (length p) s = p)"
  by (induction p s rule: starts_with.induct) auto

lemma split_once_sound: "split_once p s = Some (a, b) \<Longrightarrow> s = a @ p @ b"
proof (induction s arbitrary: a)
  case Nil
  then show ?case by (simp split: if_splits)
next
  case (Cons c cs)
  show ?case
  proof (cases "starts_with p (c # cs)")
    case True
    then have "take (length p) (c # cs) = p" by (simp add: starts_with_take)
    moreover from True Cons.prems have "a = []" "b = drop (length p) (c # cs)" by simp_all
    ultimately show ?thesis by (metis append_Nil append_take_drop_id)
  next
    case False
    with Cons.prems obtain a' where "split_once p cs = Some (a', b)" "a = c # a'"
      by (auto split: option.splits)
    with Cons.IH show ?thesis by simp
  qed
qed

text \<open>A line the annotation reader accepts is the annotation written out from its two parts.\<close>

lemma parse_annotation_shape:
  assumes "parse_annotation l = Some dc"
  shows "l = annotation_text dc"
proof -
  from assms have sw: "starts_with ''# '' l"
    by (simp add: parse_annotation_def split: if_splits)
  then have l: "l = ''# '' @ drop 2 l"
    by (metis starts_with_take append_take_drop_id length_Cons list.size(3) numeral_2_eq_2)
  from assms sw obtain d r where
    sp: "split_once annotation_marker (drop 2 l) = Some (d, r)"
    and r: "r \<noteq> []" "last r = dq" and dc: "dc = (d, butlast r)"
    by (auto simp add: parse_annotation_def split: option.splits if_splits)
  from sp have "drop 2 l = d @ annotation_marker @ r" by (rule split_once_sound)
  moreover from r have "r = butlast r @ [dq]" by (metis append_butlast_last_id)
  ultimately have "drop 2 l = d @ annotation_marker @ butlast r @ [dq]" by simp
  with l dc show ?thesis by (simp add: annotation_text_def)
qed

text \<open>The runs of a list keep every element that satisfies the test, once and in order.\<close>

lemma runs_concat: "concat (runs P cur xs) = cur @ filter P xs"
  by (induction xs arbitrary: cur) auto

lemma paragraphs_partition:
  "concat (paragraphs ls) = filter (\<lambda>nl. \<not> is_blank (snd nl)) (numbered ls)"
  by (simp add: paragraphs_def runs_concat)

text \<open>A statement is printed on as many lines as its height says.\<close>

lemma height_render:
  "length (render_stmt ind s) = height s"
  "length (render_block ind ss) = block_height ss"
  by (induction ind s and ind ss rule: render_stmt_render_block.induct) auto

text \<open>The syntax tree is the file: printed, it gives the 41 lines of the text.\<close>

lemma render_source: "render_module module_ast = source_lines"
  by code_simp

text \<open>
  Every statement of the tree stands on the line the numbering gives it: the text of that
  line, without its indentation, is the first line the statement prints.
\<close>

lemma statements_on_their_lines:
  "map (\<lambda>ns. lstrip (source_lines ! (fst ns - 1))) (locate_block 1 module_ast) =
   map (\<lambda>ns. hd (render_stmt [] (snd ns))) (locate_block 1 module_ast)"
  by code_simp

lemma http_not_builtin: "''http'' \<notin> set builtin_names"
  by code_simp

text \<open>In every world the run of the module stops with an exception, on line 6 at the latest.\<close>

lemma run_stops_early: "\<exists>l ex env. exec_module w module_ast = Raised l ex env \<and> l \<le> 6"
  using http_not_builtin unfolding exec_module_def module_ast_def
  by (auto split: option.splits)

text \<open>The bindings found with their lines are the names the block binds, in order.\<close>

lemma bind_sites_names:
  "map snd (bind_sites ln s) = binds_stmt s"
  "map snd (bind_sites_block ln ss) = binds_block ss"
  by (induction ln s and ln ss rule: bind_sites_bind_sites_block.induct)
     (auto split: option.splits)

lemma alias_bound_on_except_line: "binding_lines ''e'' module_ast = [28]"
  by code_simp

text \<open>
  \<^verbatim>\<open>except Exception\<close> catches what is derived from \<^verbatim>\<open>Exception\<close> and nothing else,
  and a clause for a class catches the classes derived from it.
\<close>

lemma catches_examples:
  "catches (Name ''Exception'') ''NameError''"
  "catches (Name ''Exception'') ''ConnectionError''"
  "catches (Name ''OSError'') ''ConnectionError''"
  "catches (Name ''IOError'') ''FileNotFoundError''"
  "\<not> catches (Name ''Exception'') ''KeyboardInterrupt''"
  "\<not> catches (Name ''Exception'') ''BaseExceptionGroup''"
  "catches (Name ''Exception'') ''ExceptionGroup''"
  "\<not> catches (Name ''ValueError'') ''NameError''"
  by code_simp+

text \<open>
  The assignment of line 20 binds \<^verbatim>\<open>user\<close> only where \<^verbatim>\<open>User\<close> is bound: anywhere
  else it raises the unbound-name error for \<^verbatim>\<open>User\<close> and binds nothing.
\<close>

lemma user_assignment_fails:
  "''User'' \<notin> set env \<Longrightarrow>
   exec w ln env
     (Assign ''user'' (Call (Attr (Attr (Name ''User'') ''objects'') ''get'') [Kw ''id'' (Num 1)]))
   = Raised ln (NameError ''User'') env"
  by simp

section \<open>The claims\<close>

text \<open>
  C1. The annotation comments of the file name exactly seven categories, "Network Call",
  "Debug Statement", "Unfinished Block", "Database Operation", "Error Handling",
  "Authentication" and "Configuration", in that order, each label once, and no other
  category label occurs in the file.

  The labels the annotation reader finds are these seven, pairwise distinct, on lines
  4, 8, 13, 19, 25, 32 and 38. The words "tagged as" stand on no other line, so no line
  assigns a further label, and each label in its double quotes occurs once in the whole
  file. (On lines 32 and 38 the description in front of the dash is the same word as the
  label, without quotes.)
\<close>

theorem C1_category_labels:
  "category_labels source_lines =
     [''Network Call'', ''Debug Statement'', ''Unfinished Block'', ''Database Operation'',
      ''Error Handling'', ''Authentication'', ''Configuration'']
   \<and> distinct (category_labels source_lines)
   \<and> lines_where is_annotation source_lines = [4, 8, 13, 19, 25, 32, 38]
   \<and> lines_where (contains ''tagged as'') source_lines = [4, 8, 13, 19, 25, 32, 38]
   \<and> map (\<lambda>c. occurrences_in source_lines (quoted c)) (category_labels source_lines)
       = [1, 1, 1, 1, 1, 1, 1]"
  by code_simp

text \<open>
  C2. The repository is one source file. In it every group of sample lines is introduced
  by a comment that states the category, and every line that is neither blank nor an
  import belongs to exactly one annotated group.

  The file has eight paragraphs. The first is the two imports and has no label; each of
  the other seven starts with an annotation. The lines of the annotated groups, group
  after group, are exactly the lines that are neither blank nor imports, and no line
  number comes twice among them.
\<close>

theorem C2_annotated_groups:
  "map fst repository = [''test-files/test-python.py'']
   \<and> map snd repository = [source_lines]
   \<and> map group_lines (paragraphs source_lines) =
       [[1, 2], [4, 5, 6], [8, 9, 10, 11], [13, 14, 15, 16, 17], [19, 20, 21, 22, 23],
        [25, 26, 27, 28, 29, 30], [32, 33, 34, 35, 36], [38, 39, 40, 41]]
   \<and> map group_label (paragraphs source_lines) =
       [None, Some ''Network Call'', Some ''Debug Statement'', Some ''Unfinished Block'',
        Some ''Database Operation'', Some ''Error Handling'', Some ''Authentication'',
        Some ''Configuration'']
   \<and> lines_where is_import source_lines = [1, 2]
   \<and> sample_lines source_lines = lines_where (\<lambda>l. \<not> is_blank l \<and> \<not> is_import l) source_lines
   \<and> sample_lines source_lines =
       [4, 5, 6, 8, 9, 10, 11, 13, 14, 15, 16, 17, 19, 20, 21, 22, 23,
        25, 26, 27, 28, 29, 30, 32, 33, 34, 35, 36, 38, 39, 40, 41]
   \<and> distinct (sample_lines source_lines)"
  by code_simp

text \<open>
  C3, as the claim states it: no line of the file opens a branch, a loop or exception
  handling. The file refutes it: line 34 opens an \<^verbatim>\<open>if\<close>, lines 26 and 28 a
  \<^verbatim>\<open>try\<close> and its \<^verbatim>\<open>except\<close>, line 30 a \<^verbatim>\<open>raise\<close>.
\<close>

theorem C3_control_flow_counterexample:
  "\<not> no_control_flow source_lines"
  by code_simp

text \<open>
  C3, amended. The file is a flat sequence of annotated example groups with no loop
  anywhere: no line opens a \<^verbatim>\<open>for\<close> or \<^verbatim>\<open>while\<close>, and neither word stands inside
  a code line. Its only control flow is sample content: one \<^verbatim>\<open>if\<close> statement on line 34,
  in the group "Authentication", and one \<^verbatim>\<open>try\<close>/\<^verbatim>\<open>except\<close> block on lines 26 to 30
  with a \<^verbatim>\<open>raise\<close> on line 30, in the group "Error Handling".
\<close>

theorem C3_control_flow:
  "keyword_lines looping_keywords source_lines = []
   \<and> mention_lines looping_keywords source_lines = []
   \<and> keyword_lines branching_keywords source_lines = [34]
   \<and> keyword_lines exception_keywords source_lines = [26, 28, 30]
   \<and> map fst (stmts_where is_if module_ast) = [34]
   \<and> map fst (stmts_where is_try module_ast) = [26]
   \<and> map fst (stmts_where is_raise module_ast) = [30]
   \<and> groups_of_line source_lines 34 = [''Authentication'']
   \<and> groups_of_line source_lines 26 = [''Error Handling'']
   \<and> groups_of_line source_lines 30 = [''Error Handling'']
   \<and> render_module module_ast = source_lines"
  by code_simp

text \<open>
  C4, as the claim states it: every annotated group has a line that is code, not a
  comment. The group "Unfinished Block" refutes it: under its annotation there are
  comments only.
\<close>

theorem C4_unfinished_block_counterexample:
  "\<not> list_all has_code_line (annotated_groups source_lines)"
  by code_simp

text \<open>
  C4, amended. Every category label is paired with sample content: each of the seven
  annotations is followed in its group by at least one line (2, 3, 4, 4, 5, 4 and 3
  lines). In six groups the content includes code lines; in the group "Unfinished Block"
  the four lines under the annotation are all comments, and these comments are the
  content to be tagged.
\<close>

theorem C4_sample_content:
  "map group_label (annotated_groups source_lines) =
     [Some ''Network Call'', Some ''Debug Statement'', Some ''Unfinished Block'',
      Some ''Database Operation'', Some ''Error Handling'', Some ''Authentication'',
      Some ''Configuration'']
   \<and> map (\<lambda>g. length (group_body g)) (annotated_groups source_lines) = [2, 3, 4, 4, 5, 4, 3]
   \<and> map has_code_line (annotated_groups source_lines) =
       [True, True, False, True, True, True, True]
   \<and> map (\<lambda>g. map is_comment (group_body g)) (group_named ''Unfinished Block'' source_lines) =
       [[True, True, True, True]]"
  by code_simp

text \<open>
  C5. The file has exactly one \<^verbatim>\<open>try\<close>/\<^verbatim>\<open>except\<close> block, in the group annotated
  "Error Handling". Its handler catches \<^verbatim>\<open>Exception\<close> under the alias \<^verbatim>\<open>e\<close>,
  prints the error and raises a \<^verbatim>\<open>ValueError\<close>; nothing else in the file handles or
  raises an exception.

  The one \<^verbatim>\<open>try\<close> statement of the tree starts on line 26, inside the group of lines
  25 to 30. The only lines that open exception handling are 26, 28 and 30, and the only
  \<^verbatim>\<open>raise\<close> is on line 30, inside the handler. Run on its own with nothing but the
  built-in names bound, the block catches the \<^verbatim>\<open>NameError\<close> of its body and ends with
  the \<^verbatim>\<open>ValueError\<close> of line 30.
\<close>

theorem C5_try_except:
  "stmts_where is_try module_ast =
     [(26, Try [ExprStmt (Call (Name ''risky_operation'') [])]
             (Name ''Exception'') (Some ''e'')
             [ExprStmt (Call (Name ''print'') [Pos (FStr DQ [Lit ''Error: '', Interp (Name ''e'')])]),
              Raise (Call (Name ''ValueError'') [Pos (Str DQ ''Custom error'')])])]
   \<and> map group_lines (group_named ''Error Handling'' source_lines) = [[25, 26, 27, 28, 29, 30]]
   \<and> keyword_lines exception_keywords source_lines = [26, 28, 30]
   \<and> map fst (stmts_where is_raise module_ast) = [30]
   \<and> exec_block calm 26 builtin_names (map snd (stmts_where is_try module_ast)) =
       Raised 30 (Failure ''ValueError'') builtin_names
   \<and> render_module module_ast = source_lines"
  by code_simp

text \<open>
  C6. The file defines no component and no interface of its own: no function, no class,
  no entry point; every statement is an import or sample content.

  No line opens a \<^verbatim>\<open>def\<close>, \<^verbatim>\<open>class\<close>, \<^verbatim>\<open>async\<close> or \<^verbatim>\<open>lambda\<close> or a decorator,
  and no code line holds one of these words or the words of a \<^verbatim>\<open>__main__\<close> guard. The
  imports are \<^verbatim>\<open>requests\<close> and \<^verbatim>\<open>json\<close>, on lines 1 and 2. Of the names the statements
  read, the only ones that can resolve are \<^verbatim>\<open>requests\<close>, three built-in names, the
  alias \<^verbatim>\<open>e\<close> and the variable \<^verbatim>\<open>user\<close>; \<^verbatim>\<open>json\<close> is never read. Every statement that
  is not an import, nested ones too, lies in an annotated group, and no line lies in two.
\<close>

theorem C6_no_definitions:
  "keyword_lines definition_keywords source_lines = []
   \<and> lines_where (\<lambda>l. starts_with ''@'' (lstrip l)) source_lines = []
   \<and> mention_lines (definition_keywords @ entry_point_words) source_lines = []
   \<and> imports_of module_ast = [''requests'', ''json'']
   \<and> resolvable_names module_ast =
       [''requests'', ''print'', ''Exception'', ''e'', ''ValueError'', ''user'']
   \<and> map fst (filter (\<lambda>ls. is_import_stmt (snd ls)) (top_level 1 module_ast)) = [1, 2]
   \<and> map fst (filter (\<lambda>ls. \<not> is_import_stmt (snd ls) \<and> \<not> is_layout (snd ls))
                 (top_level 1 module_ast)) =
       [5, 6, 9, 10, 11, 20, 21, 22, 23, 26, 33, 34, 36, 39, 40, 41]
   \<and> list_all (\<lambda>ls. is_import_stmt (snd ls) \<or> fst ls \<in> set (sample_lines source_lines))
        (filter (\<lambda>ls. \<not> is_layout (snd ls)) (locate_block 1 module_ast))
   \<and> distinct (sample_lines source_lines)
   \<and> render_module module_ast = source_lines"
  by code_simp

text \<open>
  C7, as the claim states it: fifteen names, \<^verbatim>\<open>user\<close> among them, are read without ever
  being defined or imported, and a run of the module necessarily ends in an unbound-name
  error on line 6. The file refutes the list: line 20 assigns \<^verbatim>\<open>user\<close>. And the run
  need not reach line 6: when the request of line 5 fails, the run ends there, with the
  error of the request.
\<close>

theorem C7_user_counterexample:
  "undefined_names module_ast \<noteq>
     [''http'', ''console'', ''debugger'', ''User'', ''users'', ''risky_operation'',
      ''generate_jwt_token'', ''user_id'', ''user'', ''login_user'', ''hash_password'',
      ''password'', ''os'', ''load_config_file'', ''get_app_settings'']
   \<and> ''user'' \<in> set (binds_block module_ast)
   \<and> binding_lines ''user'' module_ast = [20]
   \<and> ''user'' \<notin> set (undefined_names module_ast)
   \<and> exec_module offline module_ast =
       Raised 5 (Failure ''ConnectionError'') (''json'' # ''requests'' # builtin_names)"
  by code_simp

text \<open>
  C7, amended. The module imports \<^verbatim>\<open>requests\<close> and \<^verbatim>\<open>json\<close> only. Fourteen names are
  read without being bound by any statement or built in: \<^verbatim>\<open>http\<close>, \<^verbatim>\<open>console\<close>,
  \<^verbatim>\<open>debugger\<close>, \<^verbatim>\<open>User\<close>, \<^verbatim>\<open>users\<close>, \<^verbatim>\<open>risky_operation\<close>,
  \<^verbatim>\<open>generate_jwt_token\<close>, \<^verbatim>\<open>user_id\<close>, \<^verbatim>\<open>login_user\<close>, \<^verbatim>\<open>hash_password\<close>,
  \<^verbatim>\<open>password\<close>, \<^verbatim>\<open>os\<close>, \<^verbatim>\<open>load_config_file\<close> and \<^verbatim>\<open>get_app_settings\<close>
  (\<^verbatim>\<open>user\<close> is not one of them: line 20 assigns it, from an expression that reads
  the unbound \<^verbatim>\<open>User\<close>). A run of the module never
  completes: in every world it stops with an exception on line 6 at the latest. When both
  imports succeed and the request of line 5 returns, it stops on line 6 with the
  unbound-name error for \<^verbatim>\<open>http\<close>, after binding \<^verbatim>\<open>response\<close>.
\<close>

theorem C7_unbound_names:
  assumes "\<not> missing w ''requests''" and "\<not> missing w ''json''"
    and "fails w 5 (Attr (Name ''requests'') ''get'') = None"
    and "fails w 5 (Call (Attr (Name ''requests'') ''get'')
                      [Pos (Str SQ ''https://api.example.com'')]) = None"
  shows "imports_of module_ast = [''requests'', ''json'']
   \<and> undefined_names module_ast =
       [''http'', ''console'', ''debugger'', ''User'', ''users'', ''risky_operation'',
        ''generate_jwt_token'', ''user_id'', ''login_user'', ''hash_password'',
        ''password'', ''os'', ''load_config_file'', ''get_app_settings'']
   \<and> binding_lines ''user'' module_ast = [20]
   \<and> exec_module w module_ast =
       Raised 6 (NameError ''http'') (''response'' # ''json'' # ''requests'' # builtin_names)
   \<and> (\<exists>l ex env. exec_module v module_ast = Raised l ex env \<and> l \<le> 6)
   \<and> render_module module_ast = source_lines"
proof -
  have imp: "imports_of module_ast = [''requests'', ''json'']"
    by code_simp
  have und: "undefined_names module_ast =
       [''http'', ''console'', ''debugger'', ''User'', ''users'', ''risky_operation'',
        ''generate_jwt_token'', ''user_id'', ''login_user'', ''hash_password'',
        ''password'', ''os'', ''load_config_file'', ''get_app_settings'']"
    by code_simp
  have usr: "binding_lines ''user'' module_ast = [20]"
    by code_simp
  have run: "exec_module w module_ast =
       Raised 6 (NameError ''http'') (''response'' # ''json'' # ''requests'' # builtin_names)"
    using assms http_not_builtin unfolding exec_module_def module_ast_def
    by (simp add: eval_nat_numeral)
  from imp und usr run run_stops_early [of v] render_source show ?thesis
    by (intro conjI)
qed

text \<open>The theorem at the world where nothing fails, and the world without a network.\<close>

theorem C7_unbound_names_witness:
  "imports_of module_ast = [''requests'', ''json'']
   \<and> undefined_names module_ast =
       [''http'', ''console'', ''debugger'', ''User'', ''users'', ''risky_operation'',
        ''generate_jwt_token'', ''user_id'', ''login_user'', ''hash_password'',
        ''password'', ''os'', ''load_config_file'', ''get_app_settings'']
   \<and> binding_lines ''user'' module_ast = [20]
   \<and> exec_module calm module_ast =
       Raised 6 (NameError ''http'') (''response'' # ''json'' # ''requests'' # builtin_names)
   \<and> (\<exists>l ex env. exec_module offline module_ast = Raised l ex env \<and> l \<le> 6)
   \<and> render_module module_ast = source_lines"
  using C7_unbound_names [of calm offline] by (simp add: calm_def)

text \<open>
  C8. Every annotation comment has one format,
  \<^verbatim>\<open># <description> - should be tagged as "<Category>"\<close>; seven lines of the file have
  it and no other comment line does.

  The reader accepts lines 4, 8, 13, 19, 25, 32 and 38, and each of them is its
  description and category written out in the format. The other comment lines are 14 to
  17, and no code line carries a comment behind its code. The comments that open a
  paragraph, and the lines that speak of tagging at all, are the same seven.
\<close>

theorem C8_annotation_format:
  "lines_where is_annotation source_lines = [4, 8, 13, 19, 25, 32, 38]
   \<and> length (filter is_annotation source_lines) = 7
   \<and> map annotation_text (List.map_filter parse_annotation source_lines)
       = filter is_annotation source_lines
   \<and> List.map_filter parse_annotation source_lines =
       [(''Network calls'', ''Network Call''), (''Debug statements'', ''Debug Statement''),
        (''TODOs'', ''Unfinished Block''), (''Database operations'', ''Database Operation''),
        (''Error handling'', ''Error Handling''), (''Authentication'', ''Authentication''),
        (''Configuration'', ''Configuration'')]
   \<and> lines_where (\<lambda>l. is_comment l \<and> \<not> is_annotation l) source_lines = [14, 15, 16, 17]
   \<and> lines_where (\<lambda>l. is_code l \<and> contains ''#'' l) source_lines = []
   \<and> lines_where (contains ''tagged'') source_lines = [4, 8, 13, 19, 25, 32, 38]
   \<and> map (\<lambda>g. fst (hd g)) (filter (\<lambda>g. is_comment (snd (hd g))) (paragraphs source_lines))
       = [4, 8, 13, 19, 25, 32, 38]"
  by code_simp

text \<open>
  C9, as the claim states it: the markers TODO, FIXME, HACK and NOTE appear on the four
  lines under the annotation "Unfinished Block" and nowhere else in the file. The file
  refutes it: the text TODO stands on line 13 too, in the word "TODOs" of the annotation
  itself, and line 13 is not one of the four lines 14 to 17.
\<close>

theorem C9_todo_counterexample:
  "\<not> markers_confined source_lines
   \<and> lines_where (contains ''TODO'') source_lines = [13, 14]
   \<and> body_lines ''Unfinished Block'' source_lines = [14, 15, 16, 17]
   \<and> marker_text_lines source_lines = [13, 14, 15, 16, 17]"
  by code_simp

text \<open>
  C9, amended. Under its annotation the group "Unfinished Block" has exactly four lines,
  14 to 17, all comments, and each carries one of the markers TODO, FIXME, HACK and NOTE,
  in this order, as a word of its own. As words of their own the markers appear on no
  other line of the file. As plain text FIXME, HACK and NOTE occur nowhere else either;
  the letters TODO occur once more, inside the word "TODOs" of the group's own annotation
  on line 13.
\<close>

theorem C9_unfinished_markers:
  "map group_body (group_named ''Unfinished Block'' source_lines) =
     [[''# TODO: Add error handling'', ''# FIXME: This function is broken'',
       ''# HACK: Temporary fix for the bug'', ''# NOTE: Remember to update this'']]
   \<and> map group_lines (group_named ''Unfinished Block'' source_lines) = [[13, 14, 15, 16, 17]]
   \<and> map (\<lambda>g. map is_comment (group_body g)) (group_named ''Unfinished Block'' source_lines) =
       [[True, True, True, True]]
   \<and> marker_lines source_lines =
       [(14, [''TODO'']), (15, [''FIXME'']), (16, [''HACK'']), (17, [''NOTE''])]
   \<and> distinct markers
   \<and> map (\<lambda>m. lines_where (contains m) source_lines) markers = [[13, 14], [15], [16], [17]]"
  by code_simp

end
